theory Spec2Isabelle
  imports Main
begin

section \<open>The real-time relay of the server (Socket.IO part of the backend entry point)\<close>

text \<open>
  The relay is the block of the backend entry point between \<^verbatim>\<open>io.use(...)\<close> and the
  end of \<^verbatim>\<open>io.on('connection', ...)\<close>. It talks to three collaborators that are
  not part of the repository: the Supabase client (identity check and tables), the Redis
  set \<^verbatim>\<open>online_users\<close> and the Socket.IO hub. The hub and the Redis set are state
  of the model; the answers of Supabase are parameters of every handler.
\<close>

subsection \<open>Values and payloads\<close>

text \<open>
  Event payloads are loosely typed JavaScript values. The relay looks into a payload in
  two ways only: it reads a field of it, and it prints a field in a template literal to
  form a channel name; everything else is passed on as it came. A field value is a
  string, a boolean, \<^verbatim>\<open>null\<close>, or any other value (a number, an array, an object).
  Such a value \<open>VOther j p\<close> is given by its JSON text \<open>j\<close> together with what
  JavaScript's own conversion to a string yields for it: \<open>p\<close> is the printed text, or
  \<open>None\<close> when the conversion throws a \<^verbatim>\<open>TypeError\<close> (an object whose
  \<^verbatim>\<open>toString\<close> and \<^verbatim>\<open>valueOf\<close> give no primitive). A field that is absent reads
  as \<^verbatim>\<open>undefined\<close>, which is \<open>None\<close> here.
\<close>

datatype jsval = VStr string | VBool bool | VNull | VOther string "string option"

type_synonym obj = "string \<rightharpoonup> jsval"

text \<open>
  What a template literal \<^verbatim>\<open>`${v}`\<close> prints for a field value; \<open>None\<close> when
  printing throws.
\<close>

fun template :: "jsval option \<Rightarrow> string option" where
  "template None = Some ''undefined''"
| "template (Some (VStr s)) = Some s"
| "template (Some (VBool b)) = Some (if b then ''true'' else ''false'')"
| "template (Some VNull) = Some ''null''"
| "template (Some (VOther j p)) = p"

text \<open>
  The argument of an event as a listener sees it: \<open>None\<close> when the client sent no
  argument or \<^verbatim>\<open>null\<close>, otherwise the fields of the value that was sent (a value
  that is not an object has none of the fields the relay reads).
\<close>

type_synonym arg = "obj option"

subsection \<open>Answers of the external services\<close>

text \<open>
  An awaited Supabase table call either resolves with \<^verbatim>\<open>{data, error: null}\<close>,
  resolves with \<^verbatim>\<open>{data: null, error}\<close>, or rejects, in which case \<^verbatim>\<open>await\<close>
  throws into the enclosing \<^verbatim>\<open>try\<close>. The client as the source creates it
  (\<^verbatim>\<open>createClient(url, key)\<close>, no \<^verbatim>\<open>throwOnError\<close> anywhere) reports every
  failure of a table call, a failure of the transport included, by resolving with
  \<^verbatim>\<open>{data: null, error}\<close>; the rejecting answer is kept because every handler has a
  \<^verbatim>\<open>catch\<close> for it.
\<close>

datatype 'a reply = Success 'a | Failure string | Rejected string

record user =
  uid :: string

text \<open>
  \<^verbatim>\<open>supabase.auth.getUser(token)\<close> resolves with \<^verbatim>\<open>{data: {user}, error}\<close>
  (either may be \<^verbatim>\<open>null\<close>) or rejects.
\<close>

datatype auth_reply = AuthResolved "user option" "string option" | AuthRejected string

record follow =
  follower_id :: string

record services =
  getUser :: "string \<Rightarrow> auth_reply"
  insert_message :: "obj \<Rightarrow> obj reply"
  insert_notification :: "obj \<Rightarrow> unit reply"
  select_followers :: "string \<Rightarrow> follow list reply"
  now_iso :: string

subsection \<open>The hub, the presence set and what the relay does to the outside\<close>

record socket =
  sid :: nat
  user :: user
  rooms :: "string list"

datatype event =
    UserOnline string
  | UserOffline string
  | TypingStart string string
  | TypingStop string
  | NewMessage obj
  | NewPostNotification obj user
  | ErrorEvent string

datatype level = LInfo | LError

text \<open>
  Everything a handler does that is visible outside the process, in the order in which the
  handler does it: a write to a Supabase table with its outcome, an event put on the wire
  to one connection, a handshake refused, a line handed to the logger, the process ending
  with an exit code.
\<close>

datatype effect =
    DbInsert string obj bool
  | Deliver nat event
  | Refuse nat string
  | Logged level string "string option"
  | Exit nat

text \<open>
  \<open>sockets\<close> are the connections of the namespace in the order in which they connected,
  \<open>next_id\<close> stands for the hub's supply of connection identifiers, \<open>online_users\<close>
  is the Redis set.
\<close>

record gateway =
  sockets :: "socket list"
  next_id :: nat
  online_users :: "string set"

definition init :: gateway where
  "init = \<lparr>sockets = [], next_id = 0, online_users = {}\<rparr>"

definition user_room :: "string \<Rightarrow> string" where
  "user_room i = ''user:'' @ i"

text \<open>\<^verbatim>\<open>io.emit(ev)\<close>: to every connection of the namespace.\<close>

definition io_emit :: "gateway \<Rightarrow> event \<Rightarrow> effect list" where
  "io_emit s ev = map (\<lambda>c. Deliver (sid c) ev) (sockets s)"

text \<open>\<^verbatim>\<open>io.to(room).emit(ev)\<close>: to every connection that joined the room.\<close>

definition io_to_emit :: "gateway \<Rightarrow> string \<Rightarrow> event \<Rightarrow> effect list" where
  "io_to_emit s room ev =
     map (\<lambda>c. Deliver (sid c) ev) (filter (\<lambda>c. room \<in> set (rooms c)) (sockets s))"

text \<open>\<^verbatim>\<open>socket.to(room).emit(ev)\<close>: as above, leaving out the emitting connection.\<close>

definition socket_to_emit :: "gateway \<Rightarrow> socket \<Rightarrow> string \<Rightarrow> event \<Rightarrow> effect list" where
  "socket_to_emit s sock room ev =
     map (\<lambda>c. Deliver (sid c) ev)
       (filter (\<lambda>c. room \<in> set (rooms c) \<and> sid c \<noteq> sid sock) (sockets s))"

text \<open>\<^verbatim>\<open>socket.emit(ev)\<close>: to the connection itself.\<close>

definition socket_emit :: "socket \<Rightarrow> event \<Rightarrow> effect list" where
  "socket_emit sock ev = [Deliver (sid sock) ev]"

subsection \<open>The authentication middleware\<close>

definition authenticate :: "services \<Rightarrow> string option \<Rightarrow> string + user" where
  "authenticate env token =
     (case token of
        None \<Rightarrow> Inl ''Authentication error''
      | Some t \<Rightarrow>
          if t = [] then Inl ''Authentication error''
          else (case getUser env t of
                  AuthRejected e \<Rightarrow> Inl ''Authentication error''
                | AuthResolved u err \<Rightarrow>
                    (case u of
                       None \<Rightarrow> Inl ''Authentication error''
                     | Some usr \<Rightarrow>
                         if err \<noteq> None then Inl ''Authentication error'' else Inr usr)))"

subsection \<open>The connection handler and the event handlers it registers\<close>

definition on_connection :: "user \<Rightarrow> gateway \<Rightarrow> gateway \<times> effect list" where
  "on_connection u s =
     (let sock = \<lparr>sid = next_id s, user = u, rooms = [user_room (uid u)]\<rparr>;
          s1 = s\<lparr>sockets := sockets s @ [sock],
                 next_id := Suc (next_id s),
                 online_users := insert (uid u) (online_users s)\<rparr>
      in (s1, Logged LInfo (''User connected: '' @ uid u) None # io_emit s1 (UserOnline (uid u))))"

definition connect :: "services \<Rightarrow> string option \<Rightarrow> gateway \<Rightarrow> gateway \<times> effect list" where
  "connect env token s =
     (case authenticate env token of
        Inl msg \<Rightarrow> (s\<lparr>next_id := Suc (next_id s)\<rparr>, [Refuse (next_id s) msg])
      | Inr u \<Rightarrow> on_connection u s)"

text \<open>
  An exception that no \<^verbatim>\<open>try\<close> encloses reaches the process-wide
  \<^verbatim>\<open>uncaughtException\<close> listener, which logs it and ends the process.
\<close>

definition type_error :: string where
  "type_error = ''TypeError''"

definition uncaught :: "string \<Rightarrow> effect list" where
  "uncaught e = [Logged LError ''Uncaught Exception:'' (Some e), Exit 1]"

text \<open>
  The typing listeners destructure their argument in the parameter list and print
  \<^verbatim>\<open>chatId\<close>, both outside any \<^verbatim>\<open>try\<close>.
\<close>

definition on_typing_start :: "socket \<Rightarrow> arg \<Rightarrow> gateway \<Rightarrow> gateway \<times> effect list" where
  "on_typing_start sock a s =
     (case a of
        None \<Rightarrow> (s, uncaught type_error)
      | Some payload \<Rightarrow>
          (case template (payload ''chatId'') of
             None \<Rightarrow> (s, uncaught type_error)
           | Some chat \<Rightarrow>
               (s, socket_to_emit s sock (user_room chat)
                     (TypingStart (uid (user sock)) (uid (user sock))))))"

definition on_typing_stop :: "socket \<Rightarrow> arg \<Rightarrow> gateway \<Rightarrow> gateway \<times> effect list" where
  "on_typing_stop sock a s =
     (case a of
        None \<Rightarrow> (s, uncaught type_error)
      | Some payload \<Rightarrow>
          (case template (payload ''chatId'') of
             None \<Rightarrow> (s, uncaught type_error)
           | Some chat \<Rightarrow>
               (s, socket_to_emit s sock (user_room chat) (TypingStop (uid (user sock))))))"

definition message_row :: "socket \<Rightarrow> obj \<Rightarrow> obj" where
  "message_row sock messageData = messageData(''sender_id'' \<mapsto> VStr (uid (user sock)))"

definition notification_row :: "services \<Rightarrow> socket \<Rightarrow> obj \<Rightarrow> obj \<Rightarrow> obj" where
  "notification_row env sock messageData message =
     (Map.empty
        (''user_id'' := messageData ''receiver_id'',
         ''type'' \<mapsto> VStr ''message'',
         ''actor_id'' \<mapsto> VStr (uid (user sock)),
         ''message_id'' := message ''id'',
         ''read'' \<mapsto> VBool False,
         ''created_at'' \<mapsto> VStr (now_iso env)))"

text \<open>The \<^verbatim>\<open>catch\<close> block of the \<^verbatim>\<open>send_message\<close> handler.\<close>

definition send_failed :: "socket \<Rightarrow> string \<Rightarrow> effect list" where
  "send_failed sock e =
     Logged LError ''Message send error:'' (Some e)
       # socket_emit sock (ErrorEvent ''Failed to send message'')"

text \<open>
  The handler reads the hub only after the first \<^verbatim>\<open>await\<close> has returned, so \<open>s\<close> is
  the state at that moment. Printing the receiver happens inside the \<^verbatim>\<open>try\<close>, after
  the insert.
\<close>

definition on_send_message ::
    "services \<Rightarrow> socket \<Rightarrow> obj \<Rightarrow> gateway \<Rightarrow> gateway \<times> effect list" where
  "on_send_message env sock messageData s =
     (let row = message_row sock messageData in
      case insert_message env row of
        Rejected e \<Rightarrow> (s, DbInsert ''messages'' row False # send_failed sock e)
      | Failure e \<Rightarrow> (s, DbInsert ''messages'' row False # send_failed sock e)
      | Success message \<Rightarrow>
          (case template (messageData ''receiver_id'') of
             None \<Rightarrow> (s, DbInsert ''messages'' row True # send_failed sock type_error)
           | Some receiver \<Rightarrow>
               (let sent = DbInsert ''messages'' row True
                      # io_to_emit s (user_room receiver) (NewMessage message);
                    notif = notification_row env sock messageData message
                in case insert_notification env notif of
                     Rejected e \<Rightarrow>
                       (s, sent @ DbInsert ''notifications'' notif False # send_failed sock e)
                   | Failure notifError \<Rightarrow>
                       (s, sent @ [DbInsert ''notifications'' notif False,
                                   Logged LError ''Notification error:'' (Some notifError)])
                   | Success _ \<Rightarrow> (s, sent @ [DbInsert ''notifications'' notif True]))))"

text \<open>
  The same listener called with no argument or \<^verbatim>\<open>null\<close>: spreading it adds no field
  to the row, and reading \<^verbatim>\<open>receiver_id\<close> of it after the insert throws into the
  \<^verbatim>\<open>catch\<close> block.
\<close>

definition on_send_message_null :: "services \<Rightarrow> socket \<Rightarrow> gateway \<Rightarrow> gateway \<times> effect list" where
  "on_send_message_null env sock s =
     (let row = message_row sock Map.empty in
      case insert_message env row of
        Rejected e \<Rightarrow> (s, DbInsert ''messages'' row False # send_failed sock e)
      | Failure e \<Rightarrow> (s, DbInsert ''messages'' row False # send_failed sock e)
      | Success message \<Rightarrow> (s, DbInsert ''messages'' row True # send_failed sock type_error))"

text \<open>
  The \<^verbatim>\<open>new_post\<close> listener never looks into its argument: it passes the post on as
  it came.
\<close>

definition on_new_post :: "services \<Rightarrow> socket \<Rightarrow> obj \<Rightarrow> gateway \<Rightarrow> gateway \<times> effect list" where
  "on_new_post env sock post s =
     (case select_followers env (uid (user sock)) of
        Rejected e \<Rightarrow> (s, [Logged LError ''Post notification error:'' (Some e)])
      | Failure e \<Rightarrow> (s, [])
      | Success followers \<Rightarrow>
          if length followers > 0
          then (s, concat (map (\<lambda>follower.
                     io_to_emit s (user_room (follower_id follower))
                       (NewPostNotification post (user sock))) followers))
          else (s, []))"

text \<open>
  When the \<^verbatim>\<open>disconnect\<close> listener runs, the hub has already taken the connection out
  of its rooms and of the namespace.
\<close>

definition on_disconnect :: "socket \<Rightarrow> gateway \<Rightarrow> gateway \<times> effect list" where
  "on_disconnect sock s =
     (let s1 = s\<lparr>sockets := filter (\<lambda>c. sid c \<noteq> sid sock) (sockets s),
                 online_users := online_users s - {uid (user sock)}\<rparr>
      in (s1, Logged LInfo (''User disconnected: '' @ uid (user sock)) None
                # io_emit s1 (UserOffline (uid (user sock)))))"

subsection \<open>The gateway as a transition system\<close>

datatype client_event =
    typing_start arg
  | typing_stop arg
  | send_message arg
  | new_post obj

datatype input =
    Handshake "string option"
  | Inbound nat client_event
  | Close nat

fun dispatch :: "services \<Rightarrow> socket \<Rightarrow> client_event \<Rightarrow> gateway \<Rightarrow> gateway \<times> effect list" where
  "dispatch env sock (typing_start a) s = on_typing_start sock a s"
| "dispatch env sock (typing_stop a) s = on_typing_stop sock a s"
| "dispatch env sock (send_message a) s =
     (case a of
        None \<Rightarrow> on_send_message_null env sock s
      | Some messageData \<Rightarrow> on_send_message env sock messageData s)"
| "dispatch env sock (new_post p) s = on_new_post env sock p s"

text \<open>
  Listeners exist only for connections that passed the middleware: an event or a close
  that names any other connection finds no listener.
\<close>

fun step :: "services \<Rightarrow> gateway \<Rightarrow> input \<Rightarrow> gateway \<times> effect list" where
  "step env s (Handshake token) = connect env token s"
| "step env s (Inbound n ev) =
     (case find (\<lambda>c. sid c = n) (sockets s) of
        None \<Rightarrow> (s, [])
      | Some sock \<Rightarrow> dispatch env sock ev s)"
| "step env s (Close n) =
     (case find (\<lambda>c. sid c = n) (sockets s) of
        None \<Rightarrow> (s, [])
      | Some sock \<Rightarrow> on_disconnect sock s)"

fun is_exit :: "effect \<Rightarrow> bool" where
  "is_exit (Exit code) = True"
| "is_exit _ = False"

text \<open>Once the process has ended, nothing that arrives is handled.\<close>

fun run :: "gateway \<Rightarrow> (services \<times> input) list \<Rightarrow> gateway \<times> effect list" where
  "run s [] = (s, [])"
| "run s (x # xs) =
     (let (s1, e1) = step (fst x) s (snd x)
      in if list_ex is_exit e1 then (s1, e1)
         else (let (s2, e2) = run s1 xs in (s2, e1 @ e2)))"

subsection \<open>Reading a list of effects\<close>

text \<open>The events put on the wire to connection \<open>n\<close>, in order.\<close>

fun received :: "nat \<Rightarrow> effect list \<Rightarrow> event list" where
  "received n [] = []"
| "received n (Deliver m ev # es) = (if m = n then ev # received n es else received n es)"
| "received n (DbInsert t r ok # es) = received n es"
| "received n (Refuse m msg # es) = received n es"
| "received n (Logged l msg d # es) = received n es"
| "received n (Exit code # es) = received n es"

text \<open>Every event put on the wire, with the connection it went to.\<close>

fun deliveries :: "effect list \<Rightarrow> (nat \<times> event) list" where
  "deliveries [] = []"
| "deliveries (Deliver m ev # es) = (m, ev) # deliveries es"
| "deliveries (DbInsert t r ok # es) = deliveries es"
| "deliveries (Refuse m msg # es) = deliveries es"
| "deliveries (Logged l msg d # es) = deliveries es"
| "deliveries (Exit code # es) = deliveries es"

text \<open>The rows the table \<open>t\<close> was asked to store, and those it did store.\<close>

fun attempted :: "string \<Rightarrow> effect list \<Rightarrow> obj list" where
  "attempted t [] = []"
| "attempted t (DbInsert t' r ok # es) = (if t' = t then r # attempted t es else attempted t es)"
| "attempted t (Deliver m ev # es) = attempted t es"
| "attempted t (Refuse m msg # es) = attempted t es"
| "attempted t (Logged l msg d # es) = attempted t es"
| "attempted t (Exit code # es) = attempted t es"

fun persisted :: "string \<Rightarrow> effect list \<Rightarrow> obj list" where
  "persisted t [] = []"
| "persisted t (DbInsert t' r ok # es) =
     (if t' = t \<and> ok then r # persisted t es else persisted t es)"
| "persisted t (Deliver m ev # es) = persisted t es"
| "persisted t (Refuse m msg # es) = persisted t es"
| "persisted t (Logged l msg d # es) = persisted t es"
| "persisted t (Exit code # es) = persisted t es"

text \<open>The lines handed to the logger at level \<open>error\<close>, which is what the operator reads.\<close>

fun error_log :: "effect list \<Rightarrow> string list" where
  "error_log [] = []"
| "error_log (Logged l msg d # es) = (if l = LError then msg # error_log es else error_log es)"
| "error_log (DbInsert t r ok # es) = error_log es"
| "error_log (Deliver m ev # es) = error_log es"
| "error_log (Refuse m msg # es) = error_log es"
| "error_log (Exit code # es) = error_log es"

fun is_new_message :: "event \<Rightarrow> bool" where
  "is_new_message (NewMessage m) = True"
| "is_new_message _ = False"

text \<open>
  No \<^verbatim>\<open>new_message\<close> goes out before a row has been stored in \<^verbatim>\<open>messages\<close>:
  scanning from the start, the stored row comes first.
\<close>

fun persist_before_delivery :: "effect list \<Rightarrow> bool" where
  "persist_before_delivery [] = True"
| "persist_before_delivery (DbInsert t r ok # es) =
     (if t = ''messages'' \<and> ok then True else persist_before_delivery es)"
| "persist_before_delivery (Deliver m ev # es) =
     (\<not> is_new_message ev \<and> persist_before_delivery es)"
| "persist_before_delivery (Refuse m msg # es) = persist_before_delivery es"
| "persist_before_delivery (Logged l msg d # es) = persist_before_delivery es"
| "persist_before_delivery (Exit code # es) = persist_before_delivery es"

text \<open>A table call that did not store: it resolved with an error, or it rejected.\<close>

fun failed :: "'a reply \<Rightarrow> bool" where
  "failed (Success d) = False"
| "failed (Failure e) = True"
| "failed (Rejected e) = True"

text \<open>The connections of the namespace that are in a room.\<close>

definition bound :: "gateway \<Rightarrow> string \<Rightarrow> socket list" where
  "bound s room = filter (\<lambda>c. room \<in> set (rooms c)) (sockets s)"

text \<open>
  The hub never gives one identifier to two connections, and every connection is in the
  room of its own user and in no other.
\<close>

definition wf :: "gateway \<Rightarrow> bool" where
  "wf s \<longleftrightarrow>
     distinct (map sid (sockets s)) \<and>
     list_all (\<lambda>c. sid c < next_id s \<and> rooms c = [user_room (uid (user c))]) (sockets s)"

text \<open>The inputs that come from connection \<open>n\<close>.\<close>

fun from_conn :: "nat \<Rightarrow> input \<Rightarrow> bool" where
  "from_conn n (Handshake token) = False"
| "from_conn n (Inbound m ev) = (m = n)"
| "from_conn n (Close m) = (m = n)"

text \<open>An answer of the identity check that does not yield an identity.\<close>

fun rejects :: "auth_reply \<Rightarrow> bool" where
  "rejects (AuthRejected e) = True"
| "rejects (AuthResolved u err) = (u = None \<or> err \<noteq> None)"

text \<open>Connection \<open>n\<close> has been handed out by the hub and is not in the namespace.\<close>

definition absent :: "nat \<Rightarrow> gateway \<Rightarrow> bool" where
  "absent n s \<longleftrightarrow>
     n < next_id s \<and> list_all (\<lambda>c. sid c < next_id s \<and> sid c \<noteq> n) (sockets s)"

subsection \<open>A small scenario\<close>

text \<open>
  Three users; \<open>u1\<close> and \<open>u2\<close> hold valid credentials. \<open>peers\<close> is the gateway after
  \<open>u1\<close> and then \<open>u2\<close> have connected, \<open>two_devices\<close> the gateway after \<open>u1\<close> has
  connected twice.
\<close>

definition u1 :: user where "u1 = \<lparr>uid = ''u1''\<rparr>"
definition u2 :: user where "u2 = \<lparr>uid = ''u2''\<rparr>"
definition u3 :: user where "u3 = \<lparr>uid = ''u3''\<rparr>"

definition verifier :: "string \<Rightarrow> auth_reply" where
  "verifier t =
     (if t = ''token-u1'' then AuthResolved (Some u1) None
      else if t = ''token-u2'' then AuthResolved (Some u2) None
      else AuthResolved None (Some ''invalid JWT''))"

definition healthy :: services where
  "healthy =
     \<lparr>getUser = verifier,
      insert_message = (\<lambda>row. Success (row(''id'' \<mapsto> VOther ''1'' (Some ''1'')))),
      insert_notification = (\<lambda>row. Success ()),
      select_followers =
        (\<lambda>a. if a = ''u1'' then Success [\<lparr>follower_id = ''u2''\<rparr>] else Success []),
      now_iso = ''2024-01-01T00:00:00.000Z''\<rparr>"

definition storage_failing :: services where
  "storage_failing =
     healthy\<lparr>insert_message := (\<lambda>row. Failure ''connection refused''),
             insert_notification := (\<lambda>row. Failure ''connection refused''),
             select_followers := (\<lambda>a. Failure ''connection refused'')\<rparr>"

definition notifications_failing :: services where
  "notifications_failing = healthy\<lparr>insert_notification := (\<lambda>row. Failure ''timeout'')\<rparr>"

definition hi :: obj where
  "hi = [''receiver_id'' \<mapsto> VStr ''u2'', ''content'' \<mapsto> VStr ''hi'']"

definition first_post :: obj where
  "first_post = [''id'' \<mapsto> VOther ''7'' (Some ''7''), ''content'' \<mapsto> VStr ''hello'']"

definition sock1 :: socket where
  "sock1 = \<lparr>sid = 0, user = u1, rooms = [user_room ''u1'']\<rparr>"

definition sock2 :: socket where
  "sock2 = \<lparr>sid = 1, user = u2, rooms = [user_room ''u2'']\<rparr>"

definition sock1b :: socket where
  "sock1b = \<lparr>sid = 1, user = u1, rooms = [user_room ''u1'']\<rparr>"

definition peers :: gateway where
  "peers = \<lparr>sockets = [sock1, sock2], next_id = 2, online_users = {''u1'', ''u2''}\<rparr>"

definition two_devices :: gateway where
  "two_devices = \<lparr>sockets = [sock1, sock1b], next_id = 2, online_users = {''u1''}\<rparr>"

definition alone :: gateway where
  "alone = \<lparr>sockets = [sock1], next_id = 1, online_users = {''u1''}\<rparr>"


section \<open>Properties\<close>

subsection \<open>Reading effects of broadcasts\<close>

lemma filter_same_key:
  "distinct (map f xs) \<Longrightarrow> x \<in> set xs \<Longrightarrow> filter (\<lambda>y. f y = f x) xs = [x]"
proof (induction xs)
  case Nil
  then show ?case by simp
next
  case (Cons a xs)
  show ?case
  proof (cases "a = x")
    case True
    with Cons.prems have "\<forall>y\<in>set xs. f y \<noteq> f x"
      by (metis distinct.simps(2) image_eqI list.simps(9) set_map)
    then have "filter (\<lambda>y. f y = f x) xs = []" by (simp add: filter_empty_conv)
    with True show ?thesis by simp
  next
    case False
    with Cons show ?thesis by auto
  qed
qed

lemma received_map:
  "received n (map (\<lambda>c. Deliver (sid c) ev) cs) = map (\<lambda>c. ev) (filter (\<lambda>c. sid c = n) cs)"
  by (induction cs) auto

lemma received_append: "received n (xs @ ys) = received n xs @ received n ys"
  by (induction xs rule: received.induct) auto

lemma deliveries_append: "deliveries (xs @ ys) = deliveries xs @ deliveries ys"
  by (induction xs rule: deliveries.induct) auto

lemma deliveries_map:
  "deliveries (map (\<lambda>c. Deliver (sid c) ev) cs) = map (\<lambda>c. (sid c, ev)) cs"
  by (induction cs) auto

lemma attempted_append: "attempted t (xs @ ys) = attempted t xs @ attempted t ys"
  by (induction xs rule: attempted.induct) auto

lemma persisted_append: "persisted t (xs @ ys) = persisted t xs @ persisted t ys"
  by (induction xs rule: persisted.induct) auto

lemma attempted_map: "attempted t (map (\<lambda>c. Deliver (sid c) ev) cs) = []"
  by (induction cs) auto

lemma persisted_map: "persisted t (map (\<lambda>c. Deliver (sid c) ev) cs) = []"
  by (induction cs) auto

lemma received_room:
  assumes "distinct (map sid (sockets s))" "c \<in> set (sockets s)"
  shows "received (sid c) (io_to_emit s room ev) = (if room \<in> set (rooms c) then [ev] else [])"
proof -
  have "filter (\<lambda>c'. sid c' = sid c) (filter (\<lambda>c. room \<in> set (rooms c)) (sockets s))
      = filter (\<lambda>c. room \<in> set (rooms c)) (filter (\<lambda>c'. sid c' = sid c) (sockets s))"
    by (simp add: conj_commute)
  also have "\<dots> = filter (\<lambda>c. room \<in> set (rooms c)) [c]"
    using filter_same_key [OF assms] by simp
  finally show ?thesis by (simp add: io_to_emit_def received_map)
qed

lemma filter_new_message_room:
  "filter (\<lambda>p. is_new_message (snd p)) (deliveries (io_to_emit s room (NewMessage m)))
     = map (\<lambda>c. (sid c, NewMessage m)) (bound s room)"
  by (simp add: io_to_emit_def bound_def deliveries_map filter_map o_def)

subsection \<open>Handlers leave the hub and the presence set alone\<close>

lemma handler_state:
  "fst (on_typing_start sock a s) = s"
  "fst (on_typing_stop sock a s) = s"
  "fst (on_send_message env sock p s) = s"
  "fst (on_send_message_null env sock s) = s"
  "fst (on_new_post env sock p s) = s"
  by (simp_all add: on_typing_start_def on_typing_stop_def on_send_message_def
        on_send_message_null_def on_new_post_def Let_def
        split: reply.splits option.splits)

lemma dispatch_state: "fst (dispatch env sock ev s) = s"
  by (cases ev) (simp_all add: handler_state split: option.splits)

subsection \<open>Reachable gateways are well formed\<close>

lemma wf_init: "wf init"
  by (simp add: wf_def init_def)

lemma wf_step: "wf s \<Longrightarrow> wf (fst (step env s i))"
proof (cases i)
  case (Handshake token)
  assume "wf s"
  then show ?thesis
    unfolding Handshake
    by (auto simp: wf_def connect_def on_connection_def Let_def list_all_iff less_Suc_eq
             split: sum.splits)
next
  case (Inbound m ev)
  assume "wf s"
  then show ?thesis
    unfolding Inbound by (simp add: dispatch_state split: option.splits)
next
  case (Close m)
  assume "wf s"
  then show ?thesis
    unfolding Close
    by (auto simp: wf_def on_disconnect_def Let_def list_all_iff distinct_map_filter
             split: option.splits)
qed

lemma wf_run: "wf s \<Longrightarrow> wf (fst (run s ins))"
proof (induction ins arbitrary: s)
  case Nil
  then show ?case by simp
next
  case (Cons x xs)
  note w = wf_step [OF Cons.prems, of "fst x" "snd x"]
  from Cons.IH [OF w] w
  show ?case by (simp add: case_prod_unfold Let_def)
qed

lemmas scenario_defs =
  u1_def u2_def u3_def verifier_def healthy_def storage_failing_def notifications_failing_def
  hi_def sock1_def sock2_def sock1b_def peers_def two_devices_def
  alone_def

lemma peers_reachable:
  "fst (run init [(healthy, Handshake (Some ''token-u1'')),
                  (healthy, Handshake (Some ''token-u2''))]) = peers"
  by (simp add: scenario_defs init_def connect_def authenticate_def on_connection_def Let_def
        io_emit_def insert_commute)

lemma two_devices_reachable:
  "fst (run init [(healthy, Handshake (Some ''token-u1'')),
                  (healthy, Handshake (Some ''token-u1''))]) = two_devices"
  by (simp add: scenario_defs init_def connect_def authenticate_def on_connection_def Let_def
        io_emit_def)

lemma wf_peers: "wf peers"
  by (simp add: wf_def peers_def sock1_def sock2_def u1_def u2_def)

subsection \<open>Sending a message\<close>

lemma delivery_never_precedes_persistence:
  "persist_before_delivery (snd (on_send_message env sock messageData s))"
proof (cases "insert_message env (message_row sock messageData)")
  case (Success message)
  then show ?thesis
    by (simp add: on_send_message_def Let_def split: reply.splits option.splits)
next
  case (Failure e)
  then show ?thesis
    by (simp add: on_send_message_def Let_def send_failed_def socket_emit_def)
next
  case (Rejected e)
  then show ?thesis
    by (simp add: on_send_message_def Let_def send_failed_def socket_emit_def)
qed

text \<open>
  C1. The handler validates nothing and makes one insert; whether a message is stored is
  the answer of the Storage Service to it. When the payload names a receiver and a content
  and the Storage Service accepts the insert, exactly one insert is made and exactly one
  row is stored in \<^verbatim>\<open>messages\<close>: the payload, receiver and content included, with
  the identity of the connection as sender. The \<^verbatim>\<open>new_message\<close> events put on the
  wire are exactly one for each connection bound to the receiver's channel, each carrying
  the stored message as the Storage Service returned it (so none if no connection is
  bound), and no \<^verbatim>\<open>new_message\<close> goes out before the row is stored.
\<close>

theorem send_message_persist_then_deliver:
  assumes receiver: "messageData ''receiver_id'' = Some (VStr rid)"
    and content: "messageData ''content'' = Some text"
    and stored: "insert_message env (messageData(''sender_id'' \<mapsto> VStr (uid (user sock))))
                   = Success message"
    and ids: "distinct (map sid (sockets s))"
  shows "attempted ''messages'' (snd (on_send_message env sock messageData s))
           = [messageData(''sender_id'' \<mapsto> VStr (uid (user sock)))]
       \<and> persisted ''messages'' (snd (on_send_message env sock messageData s))
           = [messageData(''sender_id'' \<mapsto> VStr (uid (user sock)))]
       \<and> map (\<lambda>row. (row ''receiver_id'', row ''content'', row ''sender_id''))
           (persisted ''messages'' (snd (on_send_message env sock messageData s)))
           = [(Some (VStr rid), Some text, Some (VStr (uid (user sock))))]
       \<and> filter (\<lambda>p. is_new_message (snd p))
           (deliveries (snd (on_send_message env sock messageData s)))
           = map (\<lambda>c. (sid c, NewMessage message)) (bound s (user_room rid))
       \<and> (\<forall>c \<in> set (sockets s).
            filter is_new_message (received (sid c) (snd (on_send_message env sock messageData s)))
              = (if user_room rid \<in> set (rooms c) then [NewMessage message] else []))
       \<and> persist_before_delivery (snd (on_send_message env sock messageData s))"
proof -
  let ?room = "user_room rid"
  let ?row = "messageData(''sender_id'' \<mapsto> VStr (uid (user sock)))"
  let ?sent = "DbInsert ''messages'' ?row True # io_to_emit s ?room (NewMessage message)"
  have row: "message_row sock messageData = ?row" by (simp add: message_row_def)
  obtain rest where effs: "snd (on_send_message env sock messageData s) = ?sent @ rest"
    and rest_d: "filter (\<lambda>p. is_new_message (snd p)) (deliveries rest) = []"
    and rest_a: "attempted ''messages'' rest = []"
    and rest_p: "persisted ''messages'' rest = []"
    and rest_r: "\<And>n. filter is_new_message (received n rest) = []"
    using receiver stored
    by (cases "insert_notification env
                 (notification_row env sock messageData message)")
       (simp_all add: on_send_message_def row Let_def send_failed_def socket_emit_def)
  have a: "attempted ''messages'' (?sent @ rest) = [?row]"
    by (simp add: attempted_append rest_a io_to_emit_def attempted_map)
  have p: "persisted ''messages'' (?sent @ rest) = [?row]"
    by (simp add: persisted_append rest_p io_to_emit_def persisted_map)
  have f: "map (\<lambda>row. (row ''receiver_id'', row ''content'', row ''sender_id''))
             (persisted ''messages'' (?sent @ rest))
             = [(Some (VStr rid), Some text, Some (VStr (uid (user sock))))]"
    unfolding p using receiver content by simp
  have d: "filter (\<lambda>p. is_new_message (snd p)) (deliveries (?sent @ rest))
             = map (\<lambda>c. (sid c, NewMessage message)) (bound s ?room)"
    by (simp add: deliveries_append rest_d filter_new_message_room)
  have r: "filter is_new_message (received (sid c) (?sent @ rest))
             = (if ?room \<in> set (rooms c) then [NewMessage message] else [])"
    if "c \<in> set (sockets s)" for c
    using received_room [OF ids that, of ?room "NewMessage message"]
    by (simp add: received_append rest_r)
  have o: "persist_before_delivery (?sent @ rest)" by simp
  show ?thesis unfolding effs using a p f d r o by blast
qed

theorem send_message_persist_then_deliver_witness:
  "hi ''receiver_id'' = Some (VStr ''u2'')
   \<and> hi ''content'' = Some (VStr ''hi'')
   \<and> insert_message healthy (hi(''sender_id'' \<mapsto> VStr (uid (user sock1))))
       = Success [''receiver_id'' \<mapsto> VStr ''u2'', ''content'' \<mapsto> VStr ''hi'',
                  ''sender_id'' \<mapsto> VStr ''u1'', ''id'' \<mapsto> VOther ''1'' (Some ''1'')]
   \<and> distinct (map sid (sockets peers))
   \<and> attempted ''messages'' (snd (on_send_message healthy sock1 hi peers))
       = [[''receiver_id'' \<mapsto> VStr ''u2'', ''content'' \<mapsto> VStr ''hi'',
           ''sender_id'' \<mapsto> VStr ''u1'']]
   \<and> persisted ''messages'' (snd (on_send_message healthy sock1 hi peers))
       = [[''receiver_id'' \<mapsto> VStr ''u2'', ''content'' \<mapsto> VStr ''hi'',
           ''sender_id'' \<mapsto> VStr ''u1'']]
   \<and> filter (\<lambda>p. is_new_message (snd p))
       (deliveries (snd (on_send_message healthy sock1 hi peers)))
       = [(1, NewMessage [''receiver_id'' \<mapsto> VStr ''u2'', ''content'' \<mapsto> VStr ''hi'',
                          ''sender_id'' \<mapsto> VStr ''u1'',
                          ''id'' \<mapsto> VOther ''1'' (Some ''1'')])]
   \<and> filter is_new_message (received 0 (snd (on_send_message healthy sock1 hi peers))) = []
   \<and> filter is_new_message (received 1 (snd (on_send_message healthy sock1 hi peers)))
       = [NewMessage [''receiver_id'' \<mapsto> VStr ''u2'', ''content'' \<mapsto> VStr ''hi'',
                      ''sender_id'' \<mapsto> VStr ''u1'', ''id'' \<mapsto> VOther ''1'' (Some ''1'')]]
   \<and> persist_before_delivery (snd (on_send_message healthy sock1 hi peers))"
proof -
  let ?m = "[''receiver_id'' \<mapsto> VStr ''u2'', ''content'' \<mapsto> VStr ''hi'',
             ''sender_id'' \<mapsto> VStr ''u1'', ''id'' \<mapsto> VOther ''1'' (Some ''1'')]"
  have a: "hi ''receiver_id'' = Some (VStr ''u2'')" by (simp add: hi_def)
  have b: "hi ''content'' = Some (VStr ''hi'')" by (simp add: hi_def)
  have c: "insert_message healthy (hi(''sender_id'' \<mapsto> VStr (uid (user sock1)))) = Success ?m"
    by (simp add: healthy_def hi_def sock1_def u1_def)
  have d: "distinct (map sid (sockets peers))" by (simp add: peers_def sock1_def sock2_def)
  have h: "hi(''sender_id'' \<mapsto> VStr (uid (user sock1)))
             = [''receiver_id'' \<mapsto> VStr ''u2'', ''content'' \<mapsto> VStr ''hi'',
                ''sender_id'' \<mapsto> VStr ''u1'']"
    by (simp add: hi_def sock1_def u1_def)
  have bnd: "bound peers (user_room ''u2'') = [sock2]"
    by (simp add: bound_def peers_def sock1_def sock2_def user_room_def)
  have rooms: "user_room ''u2'' \<notin> set (rooms sock1)" "user_room ''u2'' \<in> set (rooms sock2)"
    by (simp_all add: sock1_def sock2_def user_room_def)
  have ids: "sid sock1 = 0" "sid sock2 = 1" "sockets peers = [sock1, sock2]"
    by (simp_all add: sock1_def sock2_def peers_def)
  note t = send_message_persist_then_deliver [OF a b c d]
  show ?thesis
    using a b c d t unfolding h bnd by (simp add: ids rooms)
qed

text \<open>
  With a valid receiver and content but a Storage Service that refuses the insert,
  nothing is stored and the receiver, though connected, receives nothing.
\<close>

theorem send_message_storage_refuses:
  "hi ''receiver_id'' = Some (VStr ''u2'')
   \<and> hi ''content'' = Some (VStr ''hi'')
   \<and> bound peers (user_room ''u2'') = [sock2]
   \<and> persisted ''messages'' (snd (on_send_message storage_failing sock1 hi peers)) = []
   \<and> received (sid sock2) (snd (on_send_message storage_failing sock1 hi peers)) = []"
  by (simp add: on_send_message_def Let_def send_failed_def socket_emit_def
        storage_failing_def healthy_def hi_def bound_def peers_def sock1_def sock2_def
        user_room_def)

text \<open>
  C2. If the insert into \<^verbatim>\<open>messages\<close> fails (it resolves with an error or it
  rejects), the gateway is unchanged, no row is stored, no insert into
  \<^verbatim>\<open>notifications\<close> is even attempted, and the only event put on the wire by the
  handler is one \<^verbatim>\<open>error\<close> event, to the connection that sent the message.
\<close>

theorem persistence_failure_error_to_sender_only:
  assumes "failed (insert_message env (message_row sock messageData))"
  shows "fst (on_send_message env sock messageData s) = s
       \<and> deliveries (snd (on_send_message env sock messageData s))
           = [(sid sock, ErrorEvent ''Failed to send message'')]
       \<and> attempted ''notifications'' (snd (on_send_message env sock messageData s)) = []
       \<and> persisted ''messages'' (snd (on_send_message env sock messageData s)) = []"
  using assms
  by (cases "insert_message env (message_row sock messageData)")
     (simp_all add: on_send_message_def Let_def send_failed_def socket_emit_def)

theorem persistence_failure_error_to_sender_only_witness:
  "failed (insert_message storage_failing (message_row sock1 hi))
   \<and> fst (on_send_message storage_failing sock1 hi peers) = peers
   \<and> deliveries (snd (on_send_message storage_failing sock1 hi peers))
       = [(0, ErrorEvent ''Failed to send message'')]
   \<and> attempted ''notifications'' (snd (on_send_message storage_failing sock1 hi peers)) = []
   \<and> persisted ''messages'' (snd (on_send_message storage_failing sock1 hi peers)) = []"
proof -
  have a: "failed (insert_message storage_failing (message_row sock1 hi))"
    by (simp add: storage_failing_def healthy_def)
  show ?thesis
    using a persistence_failure_error_to_sender_only [OF a, of peers]
    by (simp add: sock1_def)
qed

text \<open>
  Called with no argument or \<^verbatim>\<open>null\<close>, the listener never delivers a message:
  whatever the Storage Service answers, the only event put on the wire is one
  \<^verbatim>\<open>error\<close> event to the connection the event came from.
\<close>

lemma send_message_null_error_to_sender:
  "fst (on_send_message_null env sock s) = s
   \<and> deliveries (snd (on_send_message_null env sock s))
       = [(sid sock, ErrorEvent ''Failed to send message'')]
   \<and> attempted ''notifications'' (snd (on_send_message_null env sock s)) = []"
  by (cases "insert_message env (message_row sock Map.empty)")
     (simp_all add: on_send_message_null_def Let_def send_failed_def socket_emit_def)

subsection \<open>Refused handshakes\<close>

lemma authenticate_refused:
  assumes "token = None \<or> token = Some [] \<or> (\<exists>t. token = Some t \<and> rejects (getUser env t))"
  shows "authenticate env token = Inl ''Authentication error''"
  using assms
  by (auto simp: authenticate_def split: option.splits auth_reply.splits)

lemma find_absent: "absent n s \<Longrightarrow> find (\<lambda>c. sid c = n) (sockets s) = None"
  by (auto simp: absent_def find_None_iff list_all_iff)

lemma step_ignored: "absent n s \<Longrightarrow> from_conn n i \<Longrightarrow> step env s i = (s, [])"
  by (cases i) (simp_all add: find_absent)

lemma step_absent: "absent n s \<Longrightarrow> absent n (fst (step env s i))"
proof (cases i)
  case (Handshake token)
  assume "absent n s"
  then show ?thesis
    unfolding Handshake
    by (auto simp: absent_def connect_def on_connection_def Let_def list_all_iff less_Suc_eq
             split: sum.splits)
next
  case (Inbound m ev)
  assume "absent n s"
  then show ?thesis
    unfolding Inbound by (simp add: dispatch_state split: option.splits)
next
  case (Close m)
  assume "absent n s"
  then show ?thesis
    unfolding Close
    by (auto simp: absent_def on_disconnect_def Let_def list_all_iff split: option.splits)
qed

lemma run_filter:
  "absent n s \<Longrightarrow> run s ins = run s (filter (\<lambda>x. \<not> from_conn n (snd x)) ins)"
proof (induction ins arbitrary: s)
  case Nil
  show ?case by simp
next
  case (Cons x xs)
  show ?case
  proof (cases "from_conn n (snd x)")
    case True
    with Cons.prems have "step (fst x) s (snd x) = (s, [])" by (rule step_ignored)
    with True Cons.IH [OF Cons.prems] show ?thesis by simp
  next
    case False
    have "absent n (fst (step (fst x) s (snd x)))" using Cons.prems by (rule step_absent)
    from Cons.IH [OF this] False show ?thesis
      by (simp add: case_prod_unfold Let_def)
  qed
qed

lemma wf_absent_next: "wf s \<Longrightarrow> absent (next_id s) (s\<lparr>next_id := Suc (next_id s)\<rparr>)"
  by (auto simp: wf_def absent_def list_all_iff less_Suc_eq)

text \<open>
  C3. A handshake without a credential (none, or the empty string), or with one for which
  the identity check yields no identity, is refused: the connection is told
  \<^verbatim>\<open>Authentication error\<close>, nothing else happens, and in particular no room is
  joined and the presence set is untouched. Whatever the gateway receives afterwards, the
  inputs that come from the refused connection change nothing and cause nothing: the run
  is the run without them.
\<close>

theorem refused_connection_never_processed:
  assumes "token = None \<or> token = Some [] \<or> (\<exists>t. token = Some t \<and> rejects (getUser env t))"
    and "wf s"
  shows "connect env token s
           = (s\<lparr>next_id := Suc (next_id s)\<rparr>, [Refuse (next_id s) ''Authentication error''])
       \<and> run (fst (connect env token s)) ins
           = run (fst (connect env token s))
               (filter (\<lambda>x. \<not> from_conn (next_id s) (snd x)) ins)"
proof -
  have c: "connect env token s
             = (s\<lparr>next_id := Suc (next_id s)\<rparr>, [Refuse (next_id s) ''Authentication error''])"
    by (simp add: connect_def authenticate_refused [OF assms(1)])
  have "absent (next_id s) (fst (connect env token s))"
    using wf_absent_next [OF assms(2)] by (simp add: c)
  from run_filter [OF this] c show ?thesis by simp
qed

theorem refused_connection_never_processed_witness:
  "wf peers
   \<and> connect healthy None peers = (peers\<lparr>next_id := 3\<rparr>, [Refuse 2 ''Authentication error''])
   \<and> run (fst (connect healthy None peers))
        [(healthy, Inbound 2 (send_message (Some hi))),
         (healthy, Inbound 2 (typing_start (Some [''chatId'' \<mapsto> VStr ''u2'']))),
         (healthy, Inbound 2 (new_post Map.empty))]
       = (peers\<lparr>next_id := 3\<rparr>, [])"
proof -
  let ?ins = "[(healthy, Inbound 2 (send_message (Some hi))),
               (healthy, Inbound 2 (typing_start (Some [''chatId'' \<mapsto> VStr ''u2'']))),
               (healthy, Inbound 2 (new_post Map.empty))]"
  have a: "(None :: string option) = None \<or> None = Some []
             \<or> (\<exists>t. None = Some t \<and> rejects (getUser healthy t))" by simp
  have n: "next_id peers = 2" by (simp add: peers_def)
  note t = refused_connection_never_processed [OF a wf_peers, of ?ins]
  have c: "connect healthy None peers
             = (peers\<lparr>next_id := 3\<rparr>, [Refuse 2 ''Authentication error''])"
    using conjunct1 [OF t] by (simp add: n)
  have f: "filter (\<lambda>x. \<not> from_conn (next_id peers) (snd x)) ?ins = []"
    by (simp add: n)
  have "run (fst (connect healthy None peers)) ?ins = run (fst (connect healthy None peers)) []"
    using conjunct2 [OF t] unfolding f .
  then have "run (fst (connect healthy None peers)) ?ins = (peers\<lparr>next_id := 3\<rparr>, [])"
    by (simp only: run.simps c fst_conv)
  with c wf_peers show ?thesis by blast
qed

subsection \<open>Presence\<close>

lemma find_sid:
  "find (\<lambda>c. sid c = n) cs = Some sock \<Longrightarrow> sock \<in> set cs \<and> sid sock = n"
  by (induction cs) (auto split: if_splits)

lemma online_step:
  assumes wf: "wf s"
    and inv: "online_users s \<subseteq> (\<lambda>c. uid (user c)) ` set (sockets s)"
  shows "online_users (fst (step env s i))
           \<subseteq> (\<lambda>c. uid (user c)) ` set (sockets (fst (step env s i)))"
proof (cases i)
  case (Handshake token)
  show ?thesis
    unfolding Handshake using inv
    by (auto simp: connect_def on_connection_def Let_def split: sum.splits)
next
  case (Inbound m ev)
  show ?thesis
    unfolding Inbound using inv by (simp add: dispatch_state split: option.splits)
next
  case (Close m)
  show ?thesis
  proof (cases "find (\<lambda>c. sid c = m) (sockets s)")
    case None
    with inv show ?thesis unfolding Close by simp
  next
    case (Some sock)
    from find_sid [OF Some] have sock: "sock \<in> set (sockets s)" "sid sock = m" by simp_all
    have inj: "inj_on sid (set (sockets s))" using wf by (simp add: wf_def distinct_map)
    have "v \<in> (\<lambda>c. uid (user c)) ` set (filter (\<lambda>c. sid c \<noteq> sid sock) (sockets s))"
      if v: "v \<in> online_users s" "v \<noteq> uid (user sock)" for v
    proof -
      from v(1) inv obtain c where c: "c \<in> set (sockets s)" "uid (user c) = v" by auto
      with v(2) have "c \<noteq> sock" by auto
      with inj c(1) sock(1) have "sid c \<noteq> sid sock" by (auto dest: inj_onD)
      with c show ?thesis by auto
    qed
    then show ?thesis
      unfolding Close by (auto simp: Some on_disconnect_def Let_def)
  qed
qed

lemma online_users_connected:
  "wf s \<Longrightarrow> online_users s \<subseteq> (\<lambda>c. uid (user c)) ` set (sockets s) \<Longrightarrow>
   online_users (fst (run s ins)) \<subseteq> (\<lambda>c. uid (user c)) ` set (sockets (fst (run s ins)))"
proof (induction ins arbitrary: s)
  case Nil
  then show ?case by simp
next
  case (Cons x xs)
  note w = wf_step [OF Cons.prems(1), of "fst x" "snd x"]
  note o = online_step [OF Cons.prems, of "fst x" "snd x"]
  from Cons.IH [OF w o] o
  show ?case by (simp add: case_prod_unfold Let_def)
qed

text \<open>
  The lemma above is the half of the presence invariant that the relay keeps: a user in
  the set has a connection. The other half is lost when a user holds two connections and
  closes one.
\<close>

text \<open>
  C4. The relay is meant to keep a user in \<^verbatim>\<open>online_users\<close> exactly as long as the
  user has a live connection. It does not: \<open>u1\<close> connects twice and closes the first
  connection; the second connection is still in the namespace, yet \<open>u1\<close> is no longer in
  the set, and the remaining connection is told \<^verbatim>\<open>user_offline\<close> for its own user.
\<close>

theorem second_device_close_marks_offline:
  "fst (run init [(healthy, Handshake (Some ''token-u1'')),
                  (healthy, Handshake (Some ''token-u1'')),
                  (healthy, Close 0)])
     = \<lparr>sockets = [sock1b], next_id = 2, online_users = {}\<rparr>
   \<and> snd (on_disconnect sock1 two_devices)
       = [Logged LInfo ''User disconnected: u1'' None, Deliver 1 (UserOffline ''u1'')]"
  by (simp add: scenario_defs init_def connect_def authenticate_def on_connection_def Let_def
        io_emit_def on_disconnect_def)

text \<open>
  C10. Every handshake that passes the middleware puts one \<^verbatim>\<open>user_online\<close> event
  carrying the user's id on the wire to every connection of the namespace, the new one
  included. Nothing in this depends on the presence set or on the connections the user
  already has, so a second device of the same user causes a second broadcast.
\<close>

theorem connection_broadcasts_user_online:
  assumes "token = Some t" and "t \<noteq> []" and "getUser env t = AuthResolved (Some u) None"
  shows "sockets (fst (connect env token s))
           = sockets s @ [\<lparr>sid = next_id s, user = u, rooms = [user_room (uid u)]\<rparr>]
       \<and> deliveries (snd (connect env token s))
           = map (\<lambda>c. (sid c, UserOnline (uid u))) (sockets (fst (connect env token s)))"
  using assms
  by (simp add: connect_def authenticate_def on_connection_def Let_def io_emit_def
        deliveries_map deliveries_append)

theorem connection_broadcasts_user_online_witness:
  "''u1'' \<in> online_users alone
   \<and> map (\<lambda>c. uid (user c)) (sockets alone) = [''u1'']
   \<and> getUser healthy ''token-u1'' = AuthResolved (Some u1) None
   \<and> deliveries (snd (connect healthy (Some ''token-u1'') alone))
       = [(0, UserOnline ''u1''), (1, UserOnline ''u1'')]"
proof -
  have a: "Some ''token-u1'' = Some ''token-u1''" by simp
  have b: "''token-u1'' \<noteq> []" by simp
  have c: "getUser healthy ''token-u1'' = AuthResolved (Some u1) None"
    by (simp add: healthy_def verifier_def)
  show ?thesis
    using c connection_broadcasts_user_online [OF a b c, of alone]
    by (simp add: alone_def sock1_def u1_def)
qed

subsection \<open>Fan-out of a new post\<close>

lemma user_room_inj [simp]: "user_room a = user_room b \<longleftrightarrow> a = b"
  by (simp add: user_room_def)

lemma received_concat:
  "received n (concat xss) = concat (map (received n) xss)"
  by (induction xss) (simp_all add: received_append)

lemma deliveries_concat:
  "deliveries (concat xss) = concat (map deliveries xss)"
  by (induction xss) (simp_all add: deliveries_append)

lemma error_log_append: "error_log (xs @ ys) = error_log xs @ error_log ys"
  by (induction xs rule: error_log.induct) auto

lemma error_log_map: "error_log (map (\<lambda>c. Deliver (sid c) ev) cs) = []"
  by (induction cs) auto

lemma received_fanout:
  assumes "distinct (map sid (sockets s))" "c \<in> set (sockets s)"
  shows "received (sid c) (concat (map (\<lambda>f. io_to_emit s (g f) ev) fs))
           = replicate (length (filter (\<lambda>f. g f \<in> set (rooms c)) fs)) ev"
  by (induction fs) (simp_all add: received_append received_room [OF assms])

lemma new_post_effects:
  assumes "select_followers env (uid (user sock)) = Success followers"
  shows "on_new_post env sock post s
           = (s, concat (map (\<lambda>f. io_to_emit s (user_room (follower_id f))
                                    (NewPostNotification post (user sock))) followers))"
  using assms by (cases followers) (simp_all add: on_new_post_def)

text \<open>
  C5. When the follower query answers with the list of followers, the handler changes
  nothing in the gateway and puts on the wire exactly one \<^verbatim>\<open>new_post_notification\<close>
  (carrying the post and the author) per follower row and connection bound to that
  follower's channel, and nothing else. A connection therefore receives as many
  notifications as there are rows naming its user: none if its user is not among the
  followers, which for the author's own connections means none unless the author follows
  itself.
\<close>

theorem new_post_fanout_to_followers:
  assumes followers: "select_followers env (uid (user sock)) = Success followers"
    and wf: "wf s"
  shows "fst (on_new_post env sock post s) = s
       \<and> deliveries (snd (on_new_post env sock post s))
           = concat (map (\<lambda>f. map (\<lambda>c. (sid c, NewPostNotification post (user sock)))
                                (bound s (user_room (follower_id f)))) followers)
       \<and> (\<forall>c \<in> set (sockets s).
            received (sid c) (snd (on_new_post env sock post s))
              = replicate
                  (length (filter (\<lambda>f. follower_id f = uid (user c)) followers))
                  (NewPostNotification post (user sock)))"
proof -
  note e = new_post_effects [OF followers, of post s]
  have ids: "distinct (map sid (sockets s))" using wf by (simp add: wf_def)
  have d: "deliveries (snd (on_new_post env sock post s))
           = concat (map (\<lambda>f. map (\<lambda>c. (sid c, NewPostNotification post (user sock)))
                                (bound s (user_room (follower_id f)))) followers)"
    by (simp add: e deliveries_concat o_def io_to_emit_def deliveries_map bound_def)
  have r: "received (sid c) (snd (on_new_post env sock post s))
              = replicate
                  (length (filter (\<lambda>f. follower_id f = uid (user c)) followers))
                  (NewPostNotification post (user sock))"
    if c: "c \<in> set (sockets s)" for c
  proof -
    have "rooms c = [user_room (uid (user c))]" using wf c by (simp add: wf_def list_all_iff)
    then show ?thesis by (simp add: e received_fanout [OF ids c])
  qed
  show ?thesis using d r by (simp add: e)
qed

theorem new_post_fanout_to_followers_witness:
  "select_followers healthy (uid (user sock1)) = Success [\<lparr>follower_id = ''u2''\<rparr>]
   \<and> wf peers
   \<and> fst (on_new_post healthy sock1 first_post peers) = peers
   \<and> deliveries (snd (on_new_post healthy sock1 first_post peers))
       = [(1, NewPostNotification first_post u1)]
   \<and> received 0 (snd (on_new_post healthy sock1 first_post peers)) = []
   \<and> received 1 (snd (on_new_post healthy sock1 first_post peers)) = [NewPostNotification first_post u1]"
proof -
  have a: "select_followers healthy (uid (user sock1)) = Success [\<lparr>follower_id = ''u2''\<rparr>]"
    by (simp add: healthy_def sock1_def u1_def)
  show ?thesis
    using a wf_peers new_post_fanout_to_followers [OF a wf_peers, of first_post]
    by (simp add: bound_def peers_def sock1_def sock2_def u1_def u2_def)
qed
lemma follower_query_failure_no_delivery:
  assumes "failed (select_followers env (uid (user sock)))"
  shows "fst (on_new_post env sock post s) = s
       \<and> deliveries (snd (on_new_post env sock post s)) = []"
  using assms
  by (cases "select_followers env (uid (user sock))") (simp_all add: on_new_post_def)

lemma follower_query_rejection_logged:
  assumes "select_followers env (uid (user sock)) = Rejected e"
  shows "error_log (snd (on_new_post env sock post s)) = [''Post notification error:'']"
  using assms by (simp add: on_new_post_def)

text \<open>
  C8. A follower query that fails must abort the fan-out and be reported to the operator.
  The two lemmas above show what the handler does: no delivery in either kind of failure,
  and a line in the error log when the query rejects. When the query resolves with an
  error instead, the handler drops the error: nothing is logged.
\<close>

theorem follower_query_error_not_reported:
  "failed (select_followers storage_failing (uid (user sock1)))
   \<and> on_new_post storage_failing sock1 first_post peers = (peers, [])
   \<and> error_log (snd (on_new_post storage_failing sock1 first_post peers)) = []"
  by (simp add: on_new_post_def storage_failing_def healthy_def)

subsection \<open>The sender of a message\<close>

text \<open>
  C6. The row handed to the Storage Service carries the identity of the connection as
  \<^verbatim>\<open>sender_id\<close>, whatever the payload says: the one insert the handler attempts has
  that sender, and giving the payload any other \<^verbatim>\<open>sender_id\<close> (or none) changes
  nothing in what the handler does, for any behaviour of the services.
\<close>

theorem sender_id_from_connection:
  "message_row sock messageData ''sender_id'' = Some (VStr (uid (user sock)))
   \<and> map (\<lambda>row. row ''sender_id'')
       (attempted ''messages'' (snd (on_send_message env sock messageData s)))
       = [Some (VStr (uid (user sock)))]
   \<and> on_send_message env sock (messageData(''sender_id'' := claimed)) s
       = on_send_message env sock messageData s"
proof -
  have row: "message_row sock (messageData(''sender_id'' := claimed))
               = message_row sock messageData"
    by (simp add: message_row_def)
  have notif: "notification_row env sock (messageData(''sender_id'' := claimed)) m
                 = notification_row env sock messageData m" for m
    by (simp add: notification_row_def)
  have same: "on_send_message env sock (messageData(''sender_id'' := claimed)) s
                = on_send_message env sock messageData s"
    by (cases "insert_message env (message_row sock messageData)")
       (simp_all add: on_send_message_def row notif Let_def split: option.splits)
  have att: "map (\<lambda>row. row ''sender_id'')
               (attempted ''messages'' (snd (on_send_message env sock messageData s)))
             = [Some (VStr (uid (user sock)))]"
    by (simp add: on_send_message_def Let_def send_failed_def socket_emit_def
          attempted_append io_to_emit_def attempted_map message_row_def
          split: reply.splits option.splits)
  show ?thesis using same att by (simp add: message_row_def)
qed

theorem sender_id_from_connection_witness:
  "map (\<lambda>row. row ''sender_id'')
     (attempted ''messages''
        (snd (on_send_message healthy sock1 (hi(''sender_id'' \<mapsto> VStr ''u3'')) peers)))
     = [Some (VStr ''u1'')]
   \<and> on_send_message healthy sock1 (hi(''sender_id'' \<mapsto> VStr ''u3'')) peers
       = on_send_message healthy sock1 hi peers"
  using sender_id_from_connection
          [where sock = sock1 and messageData = "hi(''sender_id'' \<mapsto> VStr ''u3'')"
             and env = healthy and s = peers]
    sender_id_from_connection
          [where sock = sock1 and messageData = hi and claimed = "Some (VStr ''u3'')"
             and env = healthy and s = peers]
  by (simp add: sock1_def u1_def)

subsection \<open>Failure of the notification write\<close>

text \<open>
  C7. The notification write fails by resolving with an error, which is how the client
  reports every failure. Then, after a message has been stored and delivered, the gateway
  is unchanged; the stored message and the deliveries are what they are when the write
  succeeds: the one row in \<^verbatim>\<open>messages\<close> and one \<^verbatim>\<open>new_message\<close> per
  connection bound to the receiver's channel, and no other event to anyone, so no
  \<^verbatim>\<open>error\<close> event to the sender; the write is attempted once and not repeated; the
  operator's error log gets the line \<^verbatim>\<open>Notification error:\<close>; the process goes on.
\<close>

theorem notification_failure_non_fatal:
  assumes stored: "insert_message env (message_row sock messageData) = Success message"
    and receiver: "template (messageData ''receiver_id'') = Some rid"
    and notif: "insert_notification env (notification_row env sock messageData message)
                  = Failure notifError"
  shows "fst (on_send_message env sock messageData s) = s
       \<and> persisted ''messages'' (snd (on_send_message env sock messageData s))
           = [message_row sock messageData]
       \<and> deliveries (snd (on_send_message env sock messageData s))
           = map (\<lambda>c. (sid c, NewMessage message)) (bound s (user_room rid))
       \<and> filter (\<lambda>p. \<not> is_new_message (snd p))
           (deliveries (snd (on_send_message env sock messageData s))) = []
       \<and> received (sid sock) (snd (on_send_message env sock messageData s))
           = map (\<lambda>c. NewMessage message)
               (filter (\<lambda>c. sid c = sid sock) (bound s (user_room rid)))
       \<and> attempted ''notifications'' (snd (on_send_message env sock messageData s))
           = [notification_row env sock messageData message]
       \<and> persisted ''notifications'' (snd (on_send_message env sock messageData s)) = []
       \<and> error_log (snd (on_send_message env sock messageData s)) = [''Notification error:'']
       \<and> \<not> list_ex is_exit (snd (on_send_message env sock messageData s))"
proof -
  let ?notif = "notification_row env sock messageData message"
  have effs: "on_send_message env sock messageData s
                = (s, DbInsert ''messages'' (message_row sock messageData) True
                      # io_to_emit s (user_room rid) (NewMessage message)
                      @ [DbInsert ''notifications'' ?notif False,
                         Logged LError ''Notification error:'' (Some notifError)])"
    using assms by (simp add: on_send_message_def Let_def)
  have ex: "\<not> list_ex is_exit (map (\<lambda>c. Deliver (sid c) ev) cs)" for ev cs
    by (induction cs) simp_all
  show ?thesis
    unfolding effs
    by (simp add: persisted_append deliveries_append error_log_append attempted_append
          received_append io_to_emit_def persisted_map deliveries_map error_log_map
          attempted_map received_map bound_def filter_map o_def ex)
qed

theorem notification_failure_non_fatal_witness:
  "insert_message notifications_failing (message_row sock1 hi)
     = Success ((message_row sock1 hi)(''id'' \<mapsto> VOther ''1'' (Some ''1'')))
   \<and> template (hi ''receiver_id'') = Some ''u2''
   \<and> insert_notification notifications_failing
        (notification_row notifications_failing sock1 hi
           ((message_row sock1 hi)(''id'' \<mapsto> VOther ''1'' (Some ''1''))))
       = Failure ''timeout''
   \<and> fst (on_send_message notifications_failing sock1 hi peers) = peers
   \<and> persisted ''messages'' (snd (on_send_message notifications_failing sock1 hi peers))
       = [message_row sock1 hi]
   \<and> deliveries (snd (on_send_message notifications_failing sock1 hi peers))
       = [(1, NewMessage ((message_row sock1 hi)(''id'' \<mapsto> VOther ''1'' (Some ''1''))))]
   \<and> received 0 (snd (on_send_message notifications_failing sock1 hi peers)) = []
   \<and> persisted ''notifications'' (snd (on_send_message notifications_failing sock1 hi peers))
       = []
   \<and> error_log (snd (on_send_message notifications_failing sock1 hi peers))
       = [''Notification error:'']"
proof -
  let ?m = "(message_row sock1 hi)(''id'' \<mapsto> VOther ''1'' (Some ''1''))"
  have a: "insert_message notifications_failing (message_row sock1 hi) = Success ?m"
    by (simp add: notifications_failing_def healthy_def)
  have b: "template (hi ''receiver_id'') = Some ''u2''" by (simp add: hi_def)
  have c: "insert_notification notifications_failing
             (notification_row notifications_failing sock1 hi ?m) = Failure ''timeout''"
    by (simp add: notifications_failing_def healthy_def)
  have bnd: "bound peers (user_room ''u2'') = [sock2]"
    by (simp add: bound_def peers_def sock1_def sock2_def user_room_def)
  have ids: "sid sock1 = 0" "sid sock2 = 1"
    by (simp_all add: sock1_def sock2_def)
  note t = notification_failure_non_fatal [OF a b c, of peers]
  show ?thesis
    using a b c t unfolding bnd by (simp add: ids)
qed

subsection \<open>Typing indicators\<close>

text \<open>
  C9. For a typing event whose argument is an object (anything but nothing or
  \<^verbatim>\<open>null\<close>) with a \<^verbatim>\<open>chatId\<close> that can be printed into the channel name, the
  handlers change nothing in the gateway, write to no table, log nothing and do nothing
  but put one typing event tagged with the sender's id on the wire to every connection
  bound to the target channel other than the connection the event came from.
\<close>

theorem typing_relay_pass_through:
  assumes "template (payload ''chatId'') = Some chat"
  shows "fst (on_typing_start sock (Some payload) s) = s
       \<and> attempted t (snd (on_typing_start sock (Some payload) s)) = []
       \<and> snd (on_typing_start sock (Some payload) s)
           = map (\<lambda>c. Deliver (sid c) (TypingStart (uid (user sock)) (uid (user sock))))
               (filter (\<lambda>c. sid c \<noteq> sid sock) (bound s (user_room chat)))
       \<and> deliveries (snd (on_typing_start sock (Some payload) s))
           = map (\<lambda>c. (sid c, TypingStart (uid (user sock)) (uid (user sock))))
               (filter (\<lambda>c. sid c \<noteq> sid sock) (bound s (user_room chat)))
       \<and> fst (on_typing_stop sock (Some payload) s) = s
       \<and> attempted t (snd (on_typing_stop sock (Some payload) s)) = []
       \<and> snd (on_typing_stop sock (Some payload) s)
           = map (\<lambda>c. Deliver (sid c) (TypingStop (uid (user sock))))
               (filter (\<lambda>c. sid c \<noteq> sid sock) (bound s (user_room chat)))
       \<and> deliveries (snd (on_typing_stop sock (Some payload) s))
           = map (\<lambda>c. (sid c, TypingStop (uid (user sock))))
               (filter (\<lambda>c. sid c \<noteq> sid sock) (bound s (user_room chat)))"
  using assms
  by (simp add: on_typing_start_def on_typing_stop_def socket_to_emit_def bound_def
        attempted_map deliveries_map)

theorem typing_relay_pass_through_witness:
  "template ([''chatId'' \<mapsto> VStr ''u1''] ''chatId'') = Some ''u1''
   \<and> template ([''chatId'' \<mapsto> VStr ''u2''] ''chatId'') = Some ''u2''
   \<and> on_typing_start sock1 (Some [''chatId'' \<mapsto> VStr ''u1'']) two_devices
       = (two_devices, [Deliver 1 (TypingStart ''u1'' ''u1'')])
   \<and> on_typing_stop sock1 (Some [''chatId'' \<mapsto> VStr ''u2'']) peers
       = (peers, [Deliver 1 (TypingStop ''u1'')])"
proof -
  have a: "template ([''chatId'' \<mapsto> VStr ''u1''] ''chatId'') = Some ''u1''" by simp
  have b: "template ([''chatId'' \<mapsto> VStr ''u2''] ''chatId'') = Some ''u2''" by simp
  have b1: "filter (\<lambda>c. sid c \<noteq> sid sock1) (bound two_devices (user_room ''u1'')) = [sock1b]"
    by (simp add: bound_def two_devices_def sock1_def sock1b_def user_room_def)
  have b2: "filter (\<lambda>c. sid c \<noteq> sid sock1) (bound peers (user_room ''u2'')) = [sock2]"
    by (simp add: bound_def peers_def sock1_def sock2_def user_room_def)
  have ids: "sid sock1b = 1" "sid sock2 = 1" "uid (user sock1) = ''u1''"
    by (simp_all add: sock1_def sock1b_def sock2_def u1_def)
  note t1 = typing_relay_pass_through
              [where payload = "[''chatId'' \<mapsto> VStr ''u1'']" and chat = "''u1''"
                 and sock = sock1 and s = two_devices and t = "''messages''", OF a]
  note t2 = typing_relay_pass_through
              [where payload = "[''chatId'' \<mapsto> VStr ''u2'']" and chat = "''u2''"
                 and sock = sock1 and s = peers and t = "''messages''", OF b]
  show ?thesis
    using a b t1 t2 unfolding b1 b2 by (simp add: ids prod_eq_iff)
qed

text \<open>
  The originating connection is left out even when it is bound to the target channel:
  \<open>u1\<close>, connected twice, types in the chat with itself.
\<close>

theorem typing_relay_skips_originating_connection:
  "sock1 \<in> set (bound two_devices (user_room ''u1''))
   \<and> template ([''chatId'' \<mapsto> VStr ''u1''] ''chatId'') = Some ''u1''
   \<and> received (sid sock1)
       (snd (on_typing_start sock1 (Some [''chatId'' \<mapsto> VStr ''u1'']) two_devices)) = []
   \<and> received (sid sock1)
       (snd (on_typing_stop sock1 (Some [''chatId'' \<mapsto> VStr ''u1'']) two_devices)) = []"
  by (simp add: bound_def on_typing_start_def on_typing_stop_def socket_to_emit_def
        two_devices_def sock1_def sock1b_def user_room_def u1_def)

text \<open>
  A typing event with no argument, with \<^verbatim>\<open>null\<close>, or with a \<^verbatim>\<open>chatId\<close> that
  cannot be printed is not relayed: the exception is caught by nothing, and the process
  logs it and exits.
\<close>

lemma typing_without_payload_exits:
  "on_typing_start sock None s = (s, uncaught type_error)"
  "on_typing_stop sock None s = (s, uncaught type_error)"
  "template (payload ''chatId'') = None \<Longrightarrow>
     on_typing_start sock (Some payload) s = (s, uncaught type_error)"
  "template (payload ''chatId'') = None \<Longrightarrow>
     on_typing_stop sock (Some payload) s = (s, uncaught type_error)"
  by (simp_all add: on_typing_start_def on_typing_stop_def)

end
